theory Spec2Isabelle
  imports Complex_Main
begin

section \<open>Values exchanged with the client\<close>

text \<open>
  The backend of \<^verbatim>\<open>src/backend/server.js\<close> answers with JSON documents
  (\<^verbatim>\<open>res.json\<close>) and, for the rate limiter, with a plain text message; the answer
  to a preflight and every answer to a \<^verbatim>\<open>HEAD\<close> request has no body. An object
  keeps its keys in insertion order, as a JavaScript object literal does, so two equal
  values of type \<open>json\<close> serialise to the same bytes.
\<close>

datatype json =
    JNull
  | JNum int
  | JStr string
  | JArr "json list"
  | JObj "(string \<times> json) list"

datatype payload = JsonBody json | TextBody string | NoBody

record response =
  status :: nat
  body :: payload

definition json_response :: "nat \<Rightarrow> json \<Rightarrow> response" where
  "json_response c v = \<lparr>status = c, body = JsonBody v\<rparr>"

text \<open>\<^verbatim>\<open>res.status(500).json({ error: 'Internal server error' })\<close>, the answer of every
  \<^verbatim>\<open>catch\<close> block of the \<^verbatim>\<open>/api\<close> handlers.\<close>

definition internal_error :: response where
  "internal_error = json_response 500 (JObj [(''error'', JStr ''Internal server error'')])"

text \<open>Reading a key of a JSON object (\<open>None\<close> when the value is no object or has no such
  key).\<close>

fun json_field :: "string \<Rightarrow> payload \<Rightarrow> json option" where
  "json_field k (JsonBody (JObj kvs)) = map_of kvs k"
| "json_field k _ = None"

section \<open>The language runtime\<close>

text \<open>
  \<^verbatim>\<open>JSON.parse\<close>, \<^verbatim>\<open>JSON.stringify\<close> and \<^verbatim>\<open>Date.prototype.toISOString\<close> are built into
  the language and not part of the repository; the handlers take them as a parameter.
  \<open>JSON_parse\<close> returns \<open>Inl\<close> where the built-in throws a \<^verbatim>\<open>SyntaxError\<close>. An instant is
  a number of milliseconds, as \<^verbatim>\<open>Date.now()\<close> counts them.
\<close>

record js =
  JSON_parse :: "string \<Rightarrow> string + json"
  JSON_stringify :: "json \<Rightarrow> string"
  toISOString :: "nat \<Rightarrow> string"

section \<open>The two stores\<close>

text \<open>
  The relational store holds the table \<^verbatim>\<open>users\<close> of the migration
  \<^verbatim>\<open>20250709085850_super_jungle.sql\<close>: \<^verbatim>\<open>id SERIAL PRIMARY KEY\<close>,
  \<^verbatim>\<open>name VARCHAR(255) NOT NULL\<close>, \<^verbatim>\<open>email VARCHAR(255) UNIQUE NOT NULL\<close> and two
  timestamps that default to the current instant.
\<close>

record user_row =
  row_id :: nat
  row_name :: string
  row_email :: string
  created_at :: nat
  updated_at :: nat

text \<open>The four statements that \<^verbatim>\<open>server.js\<close> sends through \<^verbatim>\<open>pool.query\<close>.\<close>

datatype sql =
    Select_1
  | Select_backend_status
  | Select_recent_users
  | Insert_user string string

text \<open>Every call made to a store is recorded, in order, whether it succeeds or not.\<close>

datatype call =
    Query sql
  | Get string
  | SetEx string nat string
  | Del string
  | Ping

text \<open>
  The state that outlives a request: the clock, the table and its id sequence, the cache
  (each key with its value and the instant at which it expires), the windows of the rate
  limiter (per client identity, the start of the window and the count) and the record of
  the store calls. The clock does not move during one request.
\<close>

record world =
  clock :: nat
  users :: "user_row list"
  users_id_seq :: nat
  cache :: "string \<rightharpoonup> string \<times> nat"
  windows :: "string \<rightharpoonup> nat \<times> nat"
  calls :: "call list"

text \<open>
  What the surroundings do during one request. The drivers \<^verbatim>\<open>pg\<close> and \<^verbatim>\<open>redis\<close> are
  not part of the repository: a store that cannot be reached makes the awaited call
  reject, and the message of the rejection is given here per operation (\<open>None\<close>: the
  operation reaches its store). \<open>Math_random i\<close> is the \<open>i\<close>-th draw of
  \<^verbatim>\<open>Math.random()\<close> of the request.
\<close>

record env =
  query_err :: "string option"
  get_err :: "string option"
  setEx_err :: "string option"
  del_err :: "string option"
  ping_err :: "string option"
  Math_random :: "nat \<Rightarrow> real"

definition record_call :: "call \<Rightarrow> world \<Rightarrow> world" where
  "record_call c w = w\<lparr>calls := calls w @ [c]\<rparr>"

subsection \<open>Cache store\<close>

text \<open>\<^verbatim>\<open>redisClient.get(key)\<close>: the value, or \<^verbatim>\<open>null\<close> when the key is absent or has
  expired.\<close>

definition redis_get :: "env \<Rightarrow> string \<Rightarrow> world \<Rightarrow> (string + string option) \<times> world" where
  "redis_get e k w =
     (case get_err e of
        Some m \<Rightarrow> (Inl m, record_call (Get k) w)
      | None \<Rightarrow>
          (Inr (case cache w k of
                  None \<Rightarrow> None
                | Some (v, expiry) \<Rightarrow> if clock w < expiry then Some v else None),
           record_call (Get k) w))"

text \<open>\<^verbatim>\<open>redisClient.setEx(key, seconds, value)\<close>.\<close>

definition redis_setEx :: "env \<Rightarrow> string \<Rightarrow> nat \<Rightarrow> string \<Rightarrow> world \<Rightarrow> (string + unit) \<times> world" where
  "redis_setEx e k ttl v w =
     (case setEx_err e of
        Some m \<Rightarrow> (Inl m, record_call (SetEx k ttl v) w)
      | None \<Rightarrow>
          (Inr (),
           record_call (SetEx k ttl v) (w\<lparr>cache := (cache w)(k \<mapsto> (v, clock w + ttl * 1000))\<rparr>)))"

text \<open>\<^verbatim>\<open>redisClient.del(key)\<close>.\<close>

definition redis_del :: "env \<Rightarrow> string \<Rightarrow> world \<Rightarrow> (string + unit) \<times> world" where
  "redis_del e k w =
     (case del_err e of
        Some m \<Rightarrow> (Inl m, record_call (Del k) w)
      | None \<Rightarrow> (Inr (), record_call (Del k) (w\<lparr>cache := (cache w)(k := None)\<rparr>)))"

text \<open>\<^verbatim>\<open>redisClient.ping()\<close>.\<close>

definition redis_ping :: "env \<Rightarrow> world \<Rightarrow> (string + unit) \<times> world" where
  "redis_ping e w =
     (case ping_err e of
        Some m \<Rightarrow> (Inl m, record_call Ping w)
      | None \<Rightarrow> (Inr (), record_call Ping w))"

subsection \<open>Relational store\<close>

text \<open>The two probes, \<^verbatim>\<open>SELECT 1\<close> and the constant \<^verbatim>\<open>SELECT 'backend' as service, ...\<close>:
  they read no table, so they fail only when the store cannot be reached.\<close>

definition query_probe :: "env \<Rightarrow> sql \<Rightarrow> world \<Rightarrow> (string + unit) \<times> world" where
  "query_probe e q w =
     (case query_err e of
        Some m \<Rightarrow> (Inl m, record_call (Query q) w)
      | None \<Rightarrow> (Inr (), record_call (Query q) w))"

text \<open>\<^verbatim>\<open>SELECT ... FROM users ORDER BY created_at DESC LIMIT 10\<close>. SQL leaves the order
  of rows with equal \<^verbatim>\<open>created_at\<close> open; here the later insertion comes first.\<close>

definition query_recent_users :: "env \<Rightarrow> world \<Rightarrow> (string + user_row list) \<times> world" where
  "query_recent_users e w =
     (case query_err e of
        Some m \<Rightarrow> (Inl m, record_call (Query Select_recent_users) w)
      | None \<Rightarrow>
          (Inr (take 10 (rev (sort_key created_at (users w)))),
           record_call (Query Select_recent_users) w))"

text \<open>
  What a column of type \<^verbatim>\<open>VARCHAR(255)\<close> stores for a value (a string is the list of
  its characters): the value itself when it has at most 255 characters; its first 255
  characters when all the characters beyond them are spaces; nothing (\<open>None\<close>, the
  store raises an error) otherwise.
\<close>

definition varchar255 :: "string \<Rightarrow> string option" where
  "varchar255 v =
     (if list_all (\<lambda>c. c = CHR '' '') (drop 255 v) then Some (take 255 v) else None)"

definition invalid_byte :: string where
  "invalid_byte = ''invalid byte sequence for encoding UTF8: 0x00''"

definition too_long :: string where
  "too_long = ''value too long for type character varying(255)''"

definition unique_violation :: string where
  "unique_violation = ''duplicate key value violates unique constraint users_email_key''"

text \<open>
  \<^verbatim>\<open>INSERT INTO users (name, email) VALUES ($1, $2) RETURNING *\<close>. The store rejects
  the statement when it cannot be reached, when a parameter contains the character
  U+0000, when a column cannot store its value, and when the email, as its column
  stores it, is already in the table (the \<^verbatim>\<open>UNIQUE\<close> constraint); a sequence value
  drawn for a row that violates the constraint is not given back. The row returned is
  the row stored.
\<close>

definition query_insert_user :: "env \<Rightarrow> string \<Rightarrow> string \<Rightarrow> world \<Rightarrow> (string + user_row) \<times> world" where
  "query_insert_user e n m w =
     (case query_err e of
        Some msg \<Rightarrow> (Inl msg, record_call (Query (Insert_user n m)) w)
      | None \<Rightarrow>
          if CHR 0x00 \<in> set n \<or> CHR 0x00 \<in> set m then
            (Inl invalid_byte, record_call (Query (Insert_user n m)) w)
          else
            (case (varchar255 n, varchar255 m) of
               (Some n', Some m') \<Rightarrow>
                 if m' \<in> set (map row_email (users w)) then
                   (Inl unique_violation,
                    record_call (Query (Insert_user n m))
                      (w\<lparr>users_id_seq := users_id_seq w + 1\<rparr>))
                 else
                   (let r = \<lparr>row_id = users_id_seq w, row_name = n', row_email = m',
                             created_at = clock w, updated_at = clock w\<rparr>
                    in (Inr r,
                        record_call (Query (Insert_user n m))
                          (w\<lparr>users := users w @ [r], users_id_seq := users_id_seq w + 1\<rparr>)))
             | _ \<Rightarrow> (Inl too_long, record_call (Query (Insert_user n m)) w)))"

section \<open>The handlers of server.js\<close>

subsection \<open>GET /health\<close>

definition healthy_body :: "js \<Rightarrow> nat \<Rightarrow> json" where
  "healthy_body j now =
     JObj [(''status'', JStr ''healthy''),
           (''timestamp'', JStr (toISOString j now)),
           (''services'', JObj [(''database'', JStr ''connected''),
                                (''redis'', JStr ''connected''),
                                (''api'', JStr ''running'')])]"

definition unhealthy_body :: "js \<Rightarrow> nat \<Rightarrow> string \<Rightarrow> json" where
  "unhealthy_body j now msg =
     JObj [(''status'', JStr ''unhealthy''),
           (''timestamp'', JStr (toISOString j now)),
           (''error'', JStr msg)]"

definition get_health :: "js \<Rightarrow> env \<Rightarrow> world \<Rightarrow> response \<times> world" where
  "get_health j e w =
     (case query_probe e Select_1 w of
        (Inl msg, w1) \<Rightarrow> (json_response 503 (unhealthy_body j (clock w1) msg), w1)
      | (Inr _, w1) \<Rightarrow>
          (case redis_ping e w1 of
             (Inl msg, w2) \<Rightarrow> (json_response 503 (unhealthy_body j (clock w2) msg), w2)
           | (Inr _, w2) \<Rightarrow> (json_response 200 (healthy_body j (clock w2)), w2)))"

subsection \<open>GET /api/status\<close>

definition service_entry :: "string \<Rightarrow> json" where
  "service_entry n =
     JObj [(''name'', JStr n), (''status'', JStr ''healthy''), (''uptime'', JStr ''2h 34m'')]"

definition statusData :: "js \<Rightarrow> nat \<Rightarrow> json" where
  "statusData j now =
     JObj [(''services'', JArr [service_entry ''Backend API'',
                                service_entry ''Database'',
                                service_entry ''Redis Cache'']),
           (''timestamp'', JStr (toISOString j now))]"

text \<open>The part of the handler after \<^verbatim>\<open>if (cached) { return ... }\<close>: the probe query,
  whose result is bound and not read, the literal snapshot, the write to the cache with
  60 seconds to live, the answer.\<close>

definition status_miss :: "js \<Rightarrow> env \<Rightarrow> world \<Rightarrow> response \<times> world" where
  "status_miss j e w =
     (case query_probe e Select_backend_status w of
        (Inl err, w1) \<Rightarrow> (internal_error, w1)
      | (Inr result, w1) \<Rightarrow>
          (case redis_setEx e ''system:status'' 60 (JSON_stringify j (statusData j (clock w1))) w1 of
             (Inl err, w2) \<Rightarrow> (internal_error, w2)
           | (Inr _, w2) \<Rightarrow> (json_response 200 (statusData j (clock w1)), w2)))"

text \<open>\<^verbatim>\<open>res.json(JSON.parse(cached))\<close>, inside the handler's \<^verbatim>\<open>try\<close>.\<close>

definition cache_hit :: "js \<Rightarrow> string \<Rightarrow> world \<Rightarrow> response \<times> world" where
  "cache_hit j cached w =
     (case JSON_parse j cached of
        Inl err \<Rightarrow> (internal_error, w)
      | Inr v \<Rightarrow> (json_response 200 v, w))"

text \<open>\<^verbatim>\<open>if (cached)\<close>: \<^verbatim>\<open>null\<close> and the empty string are falsy.\<close>

definition get_status :: "js \<Rightarrow> env \<Rightarrow> world \<Rightarrow> response \<times> world" where
  "get_status j e w =
     (case redis_get e ''system:status'' w of
        (Inl err, w1) \<Rightarrow> (internal_error, w1)
      | (Inr None, w1) \<Rightarrow> status_miss j e w1
      | (Inr (Some cached), w1) \<Rightarrow>
          if cached = [] then status_miss j e w1 else cache_hit j cached w1)"

subsection \<open>GET /api/metrics\<close>

text \<open>\<^verbatim>\<open>Math.floor(Math.random() * k) + c\<close>.\<close>

definition random_int :: "env \<Rightarrow> nat \<Rightarrow> int \<Rightarrow> int \<Rightarrow> int" where
  "random_int e i k c = \<lfloor>Math_random e i * of_int k\<rfloor> + c"

definition metrics :: "js \<Rightarrow> env \<Rightarrow> nat \<Rightarrow> json" where
  "metrics j e now =
     JObj [(''activeUsers'', JNum (random_int e 0 200 50)),
           (''totalRequests'', JNum (random_int e 1 10000 5000)),
           (''averageResponseTime'', JNum (random_int e 2 100 50)),
           (''uptime'', JStr ''2h 34m''),
           (''timestamp'', JStr (toISOString j now))]"

definition metrics_miss :: "js \<Rightarrow> env \<Rightarrow> world \<Rightarrow> response \<times> world" where
  "metrics_miss j e w =
     (case redis_setEx e ''system:metrics'' 30 (JSON_stringify j (metrics j e (clock w))) w of
        (Inl err, w1) \<Rightarrow> (internal_error, w1)
      | (Inr _, w1) \<Rightarrow> (json_response 200 (metrics j e (clock w)), w1))"

definition get_metrics :: "js \<Rightarrow> env \<Rightarrow> world \<Rightarrow> response \<times> world" where
  "get_metrics j e w =
     (case redis_get e ''system:metrics'' w of
        (Inl err, w1) \<Rightarrow> (internal_error, w1)
      | (Inr None, w1) \<Rightarrow> metrics_miss j e w1
      | (Inr (Some cached), w1) \<Rightarrow>
          if cached = [] then metrics_miss j e w1 else cache_hit j cached w1)"

subsection \<open>GET /api/users and POST /api/users\<close>

text \<open>A row as \<^verbatim>\<open>res.json\<close> sends it: the driver hands the timestamps over as dates,
  which serialise through \<^verbatim>\<open>toISOString\<close>.\<close>

definition row_json :: "js \<Rightarrow> user_row \<Rightarrow> json" where
  "row_json j r =
     JObj [(''id'', JNum (int (row_id r))),
           (''name'', JStr (row_name r)),
           (''email'', JStr (row_email r)),
           (''created_at'', JStr (toISOString j (created_at r))),
           (''updated_at'', JStr (toISOString j (updated_at r)))]"

text \<open>The list query selects \<^verbatim>\<open>id, name, email, created_at\<close> only.\<close>

definition listed_json :: "js \<Rightarrow> user_row \<Rightarrow> json" where
  "listed_json j r =
     JObj [(''id'', JNum (int (row_id r))),
           (''name'', JStr (row_name r)),
           (''email'', JStr (row_email r)),
           (''created_at'', JStr (toISOString j (created_at r)))]"

definition list_users :: "js \<Rightarrow> env \<Rightarrow> world \<Rightarrow> response \<times> world" where
  "list_users j e w =
     (case query_recent_users e w of
        (Inl err, w1) \<Rightarrow> (internal_error, w1)
      | (Inr rows, w1) \<Rightarrow> (json_response 200 (JArr (map (listed_json j) rows)), w1))"

text \<open>
  The handler reads \<^verbatim>\<open>name\<close> and \<^verbatim>\<open>email\<close> from the parsed body, each absent
  (\<open>None\<close>) or a string. \<^verbatim>\<open>!name\<close> holds for an absent and for an empty one.
\<close>

definition falsy :: "string option \<Rightarrow> bool" where
  "falsy x = (case x of None \<Rightarrow> True | Some s \<Rightarrow> s = [])"

definition bad_request :: response where
  "bad_request = json_response 400 (JObj [(''error'', JStr ''Name and email are required'')])"

definition create_user :: "js \<Rightarrow> env \<Rightarrow> string option \<Rightarrow> string option \<Rightarrow> world \<Rightarrow> response \<times> world" where
  "create_user j e name email w =
     (if falsy name \<or> falsy email then (bad_request, w)
      else
        (case (name, email) of
           (Some n, Some m) \<Rightarrow>
             (case query_insert_user e n m w of
                (Inl err, w1) \<Rightarrow> (internal_error, w1)
              | (Inr r, w1) \<Rightarrow>
                  (case redis_del e ''system:metrics'' w1 of
                     (Inl err, w2) \<Rightarrow> (internal_error, w2)
                   | (Inr _, w2) \<Rightarrow> (json_response 201 (row_json j r), w2)))
         | _ \<Rightarrow> (bad_request, w)))"

section \<open>Admission control and routing\<close>

text \<open>
  \<^verbatim>\<open>server.js\<close> configures the limiter with
  \<^verbatim>\<open>windowMs: 15 * 60 * 1000\<close>, \<^verbatim>\<open>max: 100\<close> and the message below, and mounts it
  with \<^verbatim>\<open>app.use('/api/', limiter)\<close> before the routes.
\<close>

definition windowMs :: nat where
  "windowMs = 15 * 60 * 1000"

definition max_requests :: nat where
  "max_requests = 100"

definition limit_message :: string where
  "limit_message = ''Too many requests from this IP, please try again later.''"

datatype decision = Admit | RateLimited

text \<open>
  Modelled from the spec: the counting algorithm of the limiter. \<^verbatim>\<open>server.js\<close> only
  configures the package \<^verbatim>\<open>express-rate-limit\<close>, whose code is not among the sources.
  The specification (section 4.4) gives the algorithm: if no window exists for the
  identity or the window has expired, start a new window with count 1 and admit;
  otherwise increment the count and admit if it does not exceed the limit, else reject.
  A window that started at \<open>start\<close> has expired once \<open>windowMs\<close> have passed.
\<close>

definition limiter :: "string \<Rightarrow> world \<Rightarrow> decision \<times> world" where
  "limiter ident w =
     (case windows w ident of
        None \<Rightarrow> (Admit, w\<lparr>windows := (windows w)(ident \<mapsto> (clock w, 1))\<rparr>)
      | Some (start, count) \<Rightarrow>
          if start + windowMs \<le> clock w then
            (Admit, w\<lparr>windows := (windows w)(ident \<mapsto> (clock w, 1))\<rparr>)
          else
            (if count + 1 \<le> max_requests then Admit else RateLimited,
             w\<lparr>windows := (windows w)(ident \<mapsto> (start, count + 1))\<rparr>))"

text \<open>
  A request as the application sees it: the method (\<open>Other_method\<close> is any method
  other than the four named), the place its path falls in the route table, the
  client's address, and what the body parsers make of the body: the two fields
  \<^verbatim>\<open>name\<close> and \<^verbatim>\<open>email\<close> of \<^verbatim>\<open>req.body\<close>, each absent or a string, or
  \<open>Unparseable\<close> when a parser rejects the body (malformed, or larger than the
  limit). Matching a path against the table is the framework's work; \<open>Api_other\<close>
  is any other path under \<^verbatim>\<open>/api/\<close>, \<open>Elsewhere\<close> any other path.
\<close>

datatype http_method = GET | HEAD | POST | OPTIONS | Other_method

datatype place = Health | Api_status | Api_metrics | Api_users | Api_other | Elsewhere

datatype parsed_body = Body "string option" "string option" | Unparseable

record request =
  req_method :: http_method
  req_place :: place
  req_ip :: string
  req_body :: parsed_body

text \<open>The paths on which \<^verbatim>\<open>app.use('/api/', limiter)\<close> runs the limiter.\<close>

fun under_api :: "place \<Rightarrow> bool" where
  "under_api Health = False"
| "under_api Elsewhere = False"
| "under_api _ = True"

definition not_found :: response where
  "not_found = json_response 404 (JObj [(''error'', JStr ''Route not found'')])"

definition too_many_requests :: response where
  "too_many_requests = \<lparr>status = 429, body = TextBody limit_message\<rparr>"

text \<open>\<^verbatim>\<open>cors\<close> answers every \<^verbatim>\<open>OPTIONS\<close> request itself, with 204 and no body, and
  ends it there.\<close>

definition preflight :: response where
  "preflight = \<lparr>status = 204, body = NoBody\<rparr>"

text \<open>An answer as it leaves the server: the body of an answer to a \<^verbatim>\<open>HEAD\<close> request
  is not sent.\<close>

definition sent :: "http_method \<Rightarrow> response \<Rightarrow> response" where
  "sent mth r = (if mth = HEAD then r\<lparr>body := NoBody\<rparr> else r)"

text \<open>The route table: the four \<^verbatim>\<open>app.get\<close> routes, which also serve \<^verbatim>\<open>HEAD\<close>, the
  \<^verbatim>\<open>app.post\<close> route, and the handler for everything else.\<close>

fun dispatch :: "js \<Rightarrow> env \<Rightarrow> http_method \<Rightarrow> place \<Rightarrow> string option \<Rightarrow> string option \<Rightarrow> world \<Rightarrow> response \<times> world" where
  "dispatch j e GET Health name email w = get_health j e w"
| "dispatch j e HEAD Health name email w = get_health j e w"
| "dispatch j e GET Api_status name email w = get_status j e w"
| "dispatch j e HEAD Api_status name email w = get_status j e w"
| "dispatch j e GET Api_metrics name email w = get_metrics j e w"
| "dispatch j e HEAD Api_metrics name email w = get_metrics j e w"
| "dispatch j e GET Api_users name email w = list_users j e w"
| "dispatch j e HEAD Api_users name email w = list_users j e w"
| "dispatch j e POST Api_users name email w = create_user j e name email w"
| "dispatch j e _ _ name email w = (not_found, w)"

text \<open>
  The middleware in the order in which \<^verbatim>\<open>server.js\<close> mounts it. \<^verbatim>\<open>cors\<close> comes
  first and ends an \<^verbatim>\<open>OPTIONS\<close> request. The body parsers come next; when one
  rejects the body, the request skips everything up to the error handler at the end,
  which answers the generic 500. Only then comes the limiter, on the paths under
  \<^verbatim>\<open>/api/\<close>, and after it the routes. (\<^verbatim>\<open>helmet\<close>, \<^verbatim>\<open>compression\<close> and \<^verbatim>\<open>morgan\<close>
  set headers, compress and log; they end no request.)
\<close>

definition app :: "js \<Rightarrow> env \<Rightarrow> request \<Rightarrow> world \<Rightarrow> response \<times> world" where
  "app j e rq w =
     (if req_method rq = OPTIONS then (preflight, w)
      else
        (case req_body rq of
           Unparseable \<Rightarrow> (sent (req_method rq) internal_error, w)
         | Body name email \<Rightarrow>
             if under_api (req_place rq) then
               (case limiter (req_ip rq) w of
                  (RateLimited, w1) \<Rightarrow> (sent (req_method rq) too_many_requests, w1)
                | (Admit, w1) \<Rightarrow>
                    apfst (sent (req_method rq))
                      (dispatch j e (req_method rq) (req_place rq) name email w1))
             else
               apfst (sent (req_method rq))
                 (dispatch j e (req_method rq) (req_place rq) name email w)))"

text \<open>The requests that get as far as the limiter.\<close>

definition reaches_limiter :: "request \<Rightarrow> bool" where
  "reaches_limiter rq =
     (req_method rq \<noteq> OPTIONS \<and> req_body rq \<noteq> Unparseable \<and> under_api (req_place rq))"

text \<open>A sequence of requests, each arriving at its own instant with its own
  surroundings; the responses in order, and the state left behind.\<close>

fun serve :: "js \<Rightarrow> (nat \<times> env \<times> request) list \<Rightarrow> world \<Rightarrow> response list \<times> world" where
  "serve j [] w = ([], w)"
| "serve j ((t, e, rq) # rest) w =
     (case app j e rq (w\<lparr>clock := t\<rparr>) of
        (r, w1) \<Rightarrow> (case serve j rest w1 of (rs, w2) \<Rightarrow> (r # rs, w2)))"

text \<open>The requests of a sequence that come from one identity and reach the
  limiter.\<close>

definition counted :: "string \<Rightarrow> nat \<times> env \<times> request \<Rightarrow> bool" where
  "counted a x = (case x of (t, e, rq) \<Rightarrow> req_ip rq = a \<and> reaches_limiter rq)"

section \<open>A concrete runtime and concrete surroundings\<close>

text \<open>
  The instances at which the theorems below are evaluated. \<open>iso\<close> formats an instant
  as \<^verbatim>\<open>toISOString\<close> does for the years 1970 to 9999, \<open>render\<close> writes a document as
  \<^verbatim>\<open>JSON.stringify\<close> does when its strings need no escape beyond the quote and the
  backslash.
\<close>

definition digit :: "nat \<Rightarrow> char" where
  "digit n = ''0123456789'' ! (n mod 10)"

definition pad2 :: "nat \<Rightarrow> string" where
  "pad2 n = [digit (n div 10), digit n]"

definition pad3 :: "nat \<Rightarrow> string" where
  "pad3 n = [digit (n div 100), digit (n div 10), digit n]"

definition pad4 :: "nat \<Rightarrow> string" where
  "pad4 n = [digit (n div 1000), digit (n div 100), digit (n div 10), digit n]"

text \<open>The civil date of a day number counted from 1970-01-01 (days are regrouped into
  400-year eras that start on 1 March).\<close>

definition civil :: "nat \<Rightarrow> nat \<times> nat \<times> nat" where
  "civil days =
     (let z = days + 719468;
          era = z div 146097;
          doe = z mod 146097;
          yoe = (doe - doe div 1460 + doe div 36524 - doe div 146096) div 365;
          doy = doe - (365 * yoe + yoe div 4 - yoe div 100);
          mp = (5 * doy + 2) div 153;
          d = doy - (153 * mp + 2) div 5 + 1;
          m = (if mp < 10 then mp + 3 else mp - 9);
          y = yoe + era * 400 + (if m \<le> 2 then 1 else 0)
      in (y, m, d))"

definition iso :: "nat \<Rightarrow> string" where
  "iso t =
     (case civil (t div 86400000) of
        (y, m, d) \<Rightarrow>
          pad4 y @ ''-'' @ pad2 m @ ''-'' @ pad2 d @ ''T'' @
          pad2 (t div 3600000 mod 24) @ '':'' @ pad2 (t div 60000 mod 60) @ '':'' @
          pad2 (t div 1000 mod 60) @ ''.'' @ pad3 (t mod 1000) @ ''Z'')"

fun digits :: "nat \<Rightarrow> nat \<Rightarrow> string" where
  "digits 0 n = [digit n]"
| "digits (Suc fuel) n = (if n < 10 then [digit n] else digits fuel (n div 10) @ [digit n])"

definition render_int :: "int \<Rightarrow> string" where
  "render_int i = (if i < 0 then ''-'' @ digits (nat (- i)) (nat (- i)) else digits (nat i) (nat i))"

fun escape :: "string \<Rightarrow> string" where
  "escape [] = []"
| "escape (c # cs) =
     (if c = CHR 0x22 \<or> c = CHR 0x5C then CHR 0x5C # c # escape cs else c # escape cs)"

definition quoted :: "string \<Rightarrow> string" where
  "quoted s = CHR 0x22 # escape s @ [CHR 0x22]"

fun commas :: "string list \<Rightarrow> string" where
  "commas [] = []"
| "commas [x] = x"
| "commas (x # xs) = x @ '','' @ commas xs"

fun render :: "json \<Rightarrow> string" where
  "render JNull = ''null''"
| "render (JNum i) = render_int i"
| "render (JStr s) = quoted s"
| "render (JArr vs) = ''['' @ commas (map render vs) @ '']''"
| "render (JObj kvs) = ''{'' @ commas (map (\<lambda>(k, v). quoted k @ '':'' @ render v) kvs) @ ''}''"

text \<open>A runtime whose parser knows one document, the one given.\<close>

definition js_knowing :: "json \<Rightarrow> js" where
  "js_knowing doc =
     \<lparr>JSON_parse = (\<lambda>s. if s = render doc then Inr doc else Inl ''SyntaxError''),
      JSON_stringify = render,
      toISOString = iso\<rparr>"

definition js0 :: js where
  "js0 = js_knowing JNull"

text \<open>Surroundings in which every store answers, and the same with the cache store or
  the relational store out of reach.\<close>

definition all_up :: env where
  "all_up = \<lparr>query_err = None, get_err = None, setEx_err = None, del_err = None,
             ping_err = None, Math_random = (\<lambda>i. 1 / 2)\<rparr>"

definition cache_down :: env where
  "cache_down = all_up\<lparr>get_err := Some ''ECONNREFUSED 6379'', setEx_err := Some ''ECONNREFUSED 6379'',
                       del_err := Some ''ECONNREFUSED 6379'', ping_err := Some ''ECONNREFUSED 6379''\<rparr>"

definition db_down :: env where
  "db_down = all_up\<lparr>query_err := Some ''ECONNREFUSED 5432''\<rparr>"

text \<open>A state on 9 July 2025, 08:58:50 UTC, with one user, an empty cache and no window.\<close>

definition alice :: user_row where
  "alice = \<lparr>row_id = 1, row_name = ''Alice Brown'', row_email = ''alice.brown@example.com'',
            created_at = 1752000000000, updated_at = 1752000000000\<rparr>"

definition w0 :: world where
  "w0 = \<lparr>clock = 1752051530000, users = [alice], users_id_seq = 2,
         cache = Map.empty, windows = Map.empty, calls = []\<rparr>"

text \<open>The same runtime, with a parser that knows the status snapshot of that instant.\<close>

definition js1 :: js where
  "js1 = js_knowing (statusData js0 1752051530000)"

text \<open>The same state with a metrics document in the cache that lives for 20 more
  seconds.\<close>

definition w_cached :: world where
  "w_cached = w0\<lparr>cache := [''system:metrics'' \<mapsto>
                 (render (JObj [(''activeUsers'', JNum 61)]), 1752051550000)]\<rparr>"

text \<open>A client and its request for the status snapshot.\<close>

definition client :: string where
  "client = ''203.0.113.7''"

definition status_request :: request where
  "status_request = \<lparr>req_method = GET, req_place = Api_status, req_ip = client,
                      req_body = Body None None\<rparr>"

text \<open>The same client sends a preflight for that path, and a POST whose body is not
  JSON.\<close>

definition preflight_request :: request where
  "preflight_request = status_request\<lparr>req_method := OPTIONS\<rparr>"

definition broken_post :: request where
  "broken_post = \<lparr>req_method = POST, req_place = Api_users, req_ip = client,
                   req_body = Unparseable\<rparr>"

text \<open>The first 100 requests of the client: one at the instant of \<open>w0\<close>, 99 a second
  later.\<close>

definition hundred :: "(nat \<times> env \<times> request) list" where
  "hundred = (1752051530000, all_up, status_request) #
             replicate 99 (1752051531000, all_up, status_request)"

text \<open>Surroundings in which only the delete on the cache store fails.\<close>

definition del_down :: env where
  "del_down = all_up\<lparr>del_err := Some ''ECONNREFUSED 6379''\<rparr>"

section \<open>Predicates used in the statements\<close>

text \<open>An identity has a live window at an instant when a window is recorded for it and
  has not expired by then.\<close>

definition live_window :: "string \<Rightarrow> nat \<Rightarrow> world \<Rightarrow> bool" where
  "live_window a t w =
     (case windows w a of None \<Rightarrow> False | Some (start, count) \<Rightarrow> t < start + windowMs)"

text \<open>A key is served from the cache at the instant of the state when it has an entry
  that has not expired and whose text is not empty.\<close>

definition served_from_cache :: "string \<Rightarrow> world \<Rightarrow> bool" where
  "served_from_cache k w =
     (case cache w k of None \<Rightarrow> False | Some (v, expiry) \<Rightarrow> clock w < expiry \<and> v \<noteq> [])"

text \<open>The statuses that report a defect of the request, 400 to 499.\<close>

definition client_error :: "response \<Rightarrow> bool" where
  "client_error r = (400 \<le> status r \<and> status r < 500)"

section \<open>Facts about the handlers\<close>

subsection \<open>The handlers leave the limiter's windows alone\<close>

lemma health_windows: "windows (snd (get_health j e w)) = windows w"
  by (simp add: get_health_def query_probe_def redis_ping_def record_call_def split: option.splits)

lemma status_windows: "windows (snd (get_status j e w)) = windows w"
  by (simp add: get_status_def status_miss_def cache_hit_def redis_get_def redis_setEx_def
      query_probe_def record_call_def split: option.splits sum.splits)

lemma metrics_windows: "windows (snd (get_metrics j e w)) = windows w"
  by (simp add: get_metrics_def metrics_miss_def cache_hit_def redis_get_def redis_setEx_def
      record_call_def split: option.splits sum.splits)

lemma list_windows: "windows (snd (list_users j e w)) = windows w"
  by (simp add: list_users_def query_recent_users_def record_call_def split: option.splits)

lemma create_windows: "windows (snd (create_user j e n m w)) = windows w"
  by (simp add: create_user_def query_insert_user_def redis_del_def record_call_def Let_def
      split: option.splits)

lemma dispatch_windows: "windows (snd (dispatch j e mth pl n m w)) = windows w"
  by (cases mth; cases pl)
     (simp_all add: health_windows status_windows metrics_windows list_windows create_windows)

subsection \<open>The status codes a handler can answer with\<close>

lemma health_status: "status (fst (get_health j e w)) \<in> {200, 503}"
  by (simp add: get_health_def query_probe_def redis_ping_def json_response_def split: option.splits)

lemma status_status: "status (fst (get_status j e w)) \<in> {200, 500}"
  by (simp add: get_status_def status_miss_def cache_hit_def redis_get_def redis_setEx_def
      query_probe_def internal_error_def json_response_def split: option.splits sum.splits)

lemma metrics_status: "status (fst (get_metrics j e w)) \<in> {200, 500}"
  by (simp add: get_metrics_def metrics_miss_def cache_hit_def redis_get_def redis_setEx_def
      internal_error_def json_response_def split: option.splits sum.splits)

lemma list_status: "status (fst (list_users j e w)) \<in> {200, 500}"
  by (simp add: list_users_def query_recent_users_def internal_error_def json_response_def
      split: option.splits)

lemma create_status: "status (fst (create_user j e n m w)) \<in> {201, 400, 500}"
  by (simp add: create_user_def query_insert_user_def redis_del_def Let_def
      internal_error_def bad_request_def json_response_def split: option.splits)

lemma dispatch_not_429: "status (fst (dispatch j e mth pl n m w)) \<noteq> 429"
  using health_status [of j e w] status_status [of j e w] metrics_status [of j e w]
    list_status [of j e w] create_status [of j e n m w]
  by (cases mth; cases pl) (auto simp add: not_found_def json_response_def)

lemma sent_status: "status (sent mth r) = status r"
  by (simp add: sent_def)

subsection \<open>One request through the middleware\<close>

lemma app_before_limiter:
  "req_method rq = OPTIONS \<Longrightarrow> app j e rq w = (preflight, w)"
  "req_method rq \<noteq> OPTIONS \<Longrightarrow> req_body rq = Unparseable \<Longrightarrow>
     app j e rq w = (sent (req_method rq) internal_error, w)"
  by (simp_all add: app_def)

lemma app_windows_other:
  "\<not> (req_ip rq = a \<and> reaches_limiter rq) \<Longrightarrow> windows (snd (app j e rq w)) a = windows w a"
  by (auto simp add: app_def reaches_limiter_def limiter_def dispatch_windows
      split: option.splits prod.splits decision.splits parsed_body.splits)

lemma app_windows_counted:
  assumes "req_ip rq = a" and "reaches_limiter rq"
    and "windows w a = Some (t0, c)" and "clock w < t0 + windowMs"
  shows "windows (snd (app j e rq w)) a = Some (t0, c + 1)"
  using assms
  by (auto simp add: app_def reaches_limiter_def limiter_def dispatch_windows
      split: prod.splits decision.splits parsed_body.splits)

lemma app_opens_window:
  assumes "req_ip rq = a" and "reaches_limiter rq" and "\<not> live_window a (clock w) w"
  shows "windows (snd (app j e rq w)) a = Some (clock w, 1) \<and>
         status (fst (app j e rq w)) \<noteq> 429"
  using assms dispatch_not_429
  by (auto simp add: app_def reaches_limiter_def limiter_def live_window_def dispatch_windows
      sent_status split: option.splits prod.splits decision.splits parsed_body.splits)

lemma app_in_window:
  assumes "req_ip rq = a" and "reaches_limiter rq"
    and "windows w a = Some (t0, c)" and "clock w < t0 + windowMs"
  shows "(c < max_requests \<longrightarrow> status (fst (app j e rq w)) \<noteq> 429) \<and>
         (max_requests \<le> c \<longrightarrow> fst (app j e rq w) = sent (req_method rq) too_many_requests)"
  using assms dispatch_not_429
  by (auto simp add: app_def reaches_limiter_def limiter_def sent_status
      split: prod.splits decision.splits parsed_body.splits)

lemma app_after_window:
  assumes "req_ip rq = a" and "reaches_limiter rq"
    and "windows w a = Some (t0, c)" and "t0 + windowMs \<le> clock w"
  shows "status (fst (app j e rq w)) \<noteq> 429"
  using assms dispatch_not_429
  by (auto simp add: app_def reaches_limiter_def limiter_def sent_status
      split: prod.splits decision.splits parsed_body.splits)

text \<open>While the window of an identity is live, a sequence of requests moves its count
  by the number of its own requests that reach the limiter, whatever else is sent in
  between.\<close>

lemma serve_windows:
  assumes "windows w a = Some (t0, c)"
    and "\<forall>x \<in> set reqs. counted a x \<longrightarrow> fst x < t0 + windowMs"
  shows "windows (snd (serve j reqs w)) a = Some (t0, c + length (filter (counted a) reqs))"
  using assms
proof (induction reqs arbitrary: w c)
  case Nil
  then show ?case by simp
next
  case (Cons x reqs)
  obtain t e rq where x: "x = (t, e, rq)" by (cases x) auto
  let ?w1 = "snd (app j e rq (w\<lparr>clock := t\<rparr>))"
  have step: "snd (serve j (x # reqs) w) = snd (serve j reqs ?w1)"
    by (simp add: x split: prod.splits)
  have rest: "\<forall>y \<in> set reqs. counted a y \<longrightarrow> fst y < t0 + windowMs"
    using Cons.prems(2) by simp
  show ?case
  proof (cases "counted a x")
    case True
    then have "req_ip rq = a" "reaches_limiter rq" "t < t0 + windowMs"
      using Cons.prems(2) x by (auto simp add: counted_def)
    then have "windows ?w1 a = Some (t0, c + 1)"
      using app_windows_counted [of rq a "w\<lparr>clock := t\<rparr>" t0 c j e] Cons.prems(1) by simp
    from Cons.IH [OF this rest] True step show ?thesis by simp
  next
    case False
    then have "windows ?w1 a = Some (t0, c)"
      using app_windows_other [of rq a j e "w\<lparr>clock := t\<rparr>"] Cons.prems(1) x
      by (simp add: counted_def)
    from Cons.IH [OF this rest] False step show ?thesis by simp
  qed
qed

text \<open>The first 100 requests of the client leave its window, opened at the instant of
  \<open>w0\<close>, with a count of 100.\<close>

lemma hundred_counted:
  "windows (snd (serve js0 hundred w0)) client = Some (1752051530000, 100)"
proof -
  let ?w1 = "snd (app js0 all_up status_request (w0\<lparr>clock := 1752051530000\<rparr>))"
  have ip: "req_ip status_request = client" and reach: "reaches_limiter status_request"
    by (simp_all add: status_request_def reaches_limiter_def)
  have fresh: "\<not> live_window client (clock (w0\<lparr>clock := 1752051530000\<rparr>))
      (w0\<lparr>clock := 1752051530000\<rparr>)"
    by (simp add: live_window_def w0_def)
  have opened: "windows ?w1 client = Some (1752051530000, 1)"
    using conjunct1 [OF app_opens_window [OF ip reach fresh, of js0 all_up]] by simp
  have later: "\<forall>x \<in> set (replicate 99 (1752051531000::nat, all_up, status_request)).
      counted client x \<longrightarrow> fst x < 1752051530000 + windowMs"
    by (simp add: windowMs_def)
  have step: "snd (serve js0 hundred w0) =
      snd (serve js0 (replicate 99 (1752051531000, all_up, status_request)) ?w1)"
    by (simp add: hundred_def split: prod.splits)
  show ?thesis
    using serve_windows [OF opened later, of js0] step
    by (simp add: counted_def ip reach)
qed

subsection \<open>The two ways in which the status handler answers 200\<close>

lemma first_status_200:
  assumes "get_status j e1 w = (r1, w1)" and "status r1 = 200"
  shows "(r1 = json_response 200 (statusData j (clock w)) \<and>
          cache w1 ''system:status'' =
            Some (JSON_stringify j (statusData j (clock w)), clock w + 60 * 1000)) \<or>
         (\<exists>s expiry v. cache w ''system:status'' = Some (s, expiry) \<and> clock w < expiry \<and>
            s \<noteq> [] \<and> JSON_parse j s = Inr v \<and> r1 = json_response 200 v \<and>
            cache w1 ''system:status'' = cache w ''system:status'')"
  using assms
  by (auto simp add: get_status_def status_miss_def cache_hit_def redis_get_def redis_setEx_def
      query_probe_def record_call_def internal_error_def json_response_def
      split: option.splits if_splits sum.splits)

lemma second_status_hit:
  assumes "cache w2 ''system:status'' = Some (s, expiry)" and "clock w2 < expiry" and "s \<noteq> []"
    and "JSON_parse j s = Inr v" and "get_err e2 = None"
  shows "get_status j e2 w2 = (json_response 200 v, record_call (Get ''system:status'') w2)"
  using assms
  by (simp add: get_status_def cache_hit_def redis_get_def)

subsection \<open>The concrete runtime\<close>

lemma iso_example: "iso 1752051530000 = ''2025-07-09T08:58:50.000Z''"
  by (simp add: iso_def civil_def pad2_def pad3_def pad4_def digit_def Let_def)

lemma statusData_js1: "statusData js1 t = statusData js0 t"
  by (simp add: statusData_def js1_def js0_def js_knowing_def)

section \<open>Properties of the service\<close>

subsection \<open>C1: a cache store out of reach\<close>

text \<open>
  With the cache store out of reach, both endpoints answer 500, not 200: at the state
  \<open>w0\<close>, with every cache operation rejected and the relational store in order.
\<close>

theorem cache_down_counterexample:
  "fst (get_status js0 cache_down w0) = internal_error \<and>
   fst (get_metrics js0 cache_down w0) = internal_error \<and>
   status internal_error \<noteq> 200"
  by (simp add: get_status_def get_metrics_def redis_get_def cache_down_def all_up_def
      internal_error_def json_response_def)

text \<open>
  C1, as the code has it. A failure of the cache read or of the cache write inside
  \<^verbatim>\<open>GET /api/status\<close> and \<^verbatim>\<open>GET /api/metrics\<close> is caught by the handler's
  \<^verbatim>\<open>catch\<close> block and answered with 500 and the generic body
  \<^verbatim>\<open>{error: 'Internal server error'}\<close>. When the read is rejected, the handler stops
  there: the only store call it has made is that read. When the write is rejected and
  the key is not served from the cache, the handler answers 500 as well.
\<close>

theorem cache_failure_answers_500:
  "(get_err e = Some m \<longrightarrow>
      get_status j e w = (internal_error, record_call (Get ''system:status'') w) \<and>
      get_metrics j e w = (internal_error, record_call (Get ''system:metrics'') w)) \<and>
   (setEx_err e = Some m \<and> \<not> served_from_cache ''system:status'' w \<longrightarrow>
      fst (get_status j e w) = internal_error) \<and>
   (setEx_err e = Some m \<and> \<not> served_from_cache ''system:metrics'' w \<longrightarrow>
      fst (get_metrics j e w) = internal_error)"
  by (simp add: get_status_def get_metrics_def status_miss_def metrics_miss_def
      served_from_cache_def redis_get_def redis_setEx_def query_probe_def record_call_def
      split: option.splits)

text \<open>The cache store is out of reach and holds nothing that could be served; and the
  write alone is rejected.\<close>

theorem cache_failure_answers_500_witness:
  "get_err cache_down = Some ''ECONNREFUSED 6379'' \<and>
   setEx_err cache_down = Some ''ECONNREFUSED 6379'' \<and>
   \<not> served_from_cache ''system:status'' w0 \<and>
   \<not> served_from_cache ''system:metrics'' w0 \<and>
   get_status js0 cache_down w0 = (internal_error, record_call (Get ''system:status'') w0) \<and>
   get_metrics js0 cache_down w0 = (internal_error, record_call (Get ''system:metrics'') w0) \<and>
   fst (get_status js0 (all_up\<lparr>setEx_err := Some ''ECONNREFUSED 6379''\<rparr>) w0) = internal_error \<and>
   fst (get_metrics js0 (all_up\<lparr>setEx_err := Some ''ECONNREFUSED 6379''\<rparr>) w0) = internal_error"
  using cache_failure_answers_500 [of cache_down "''ECONNREFUSED 6379''" js0 w0]
    cache_failure_answers_500 [of "all_up\<lparr>setEx_err := Some ''ECONNREFUSED 6379''\<rparr>"
      "''ECONNREFUSED 6379''" js0 w0]
  by (simp add: cache_down_def all_up_def served_from_cache_def w0_def)

subsection \<open>C2: the rate-limit window\<close>

text \<open>
  A client has sent 100 requests under \<^verbatim>\<open>/api/\<close> within a second, and its window
  holds a count of 100. Its next requests under \<^verbatim>\<open>/api/\<close>, one second later, are a
  preflight and a POST whose body is not JSON. Neither is rejected with 429: the
  preflight is answered 204 by \<^verbatim>\<open>cors\<close>, the POST 500 by the error handler, both
  before the limiter is reached.
\<close>

theorem limiter_bypass_counterexample:
  "windows (snd (serve js0 hundred w0)) client = Some (1752051530000, 100) \<and>
   req_ip preflight_request = client \<and> under_api (req_place preflight_request) \<and>
   req_ip broken_post = client \<and> under_api (req_place broken_post) \<and>
   status (fst (app js0 all_up preflight_request
                  ((snd (serve js0 hundred w0))\<lparr>clock := 1752051532000\<rparr>))) = 204 \<and>
   status (fst (app js0 all_up broken_post
                  ((snd (serve js0 hundred w0))\<lparr>clock := 1752051532000\<rparr>))) = 500"
  using hundred_counted
  by (simp add: app_def preflight_request_def broken_post_def status_request_def preflight_def
      sent_def internal_error_def json_response_def)

text \<open>
  C2, as the code has it. The limiter is mounted after \<^verbatim>\<open>cors\<close> and the body
  parsers, so the window covers the requests under \<^verbatim>\<open>/api/\<close> that reach it: those
  that are no \<^verbatim>\<open>OPTIONS\<close> request and whose body the parsers accept. Take any client
  identity \<open>a\<close> that has no live window at the instant \<open>t0\<close> of such a request
  \<open>rq0\<close>, and any requests \<open>rest\<close> served after it, from any clients, of which
  those of \<open>a\<close> that reach the limiter arrive before \<open>t0 + windowMs\<close>. Then \<open>rq0\<close>
  is admitted, and \<open>k\<close> requests of \<open>a\<close> have been counted in the window. A further
  request \<open>rq\<close> of \<open>a\<close> that reaches the limiter at an instant \<open>t\<close> is admitted
  when it arrives in the window and fewer than 100 were counted (it is one of the
  requests 1 to 100), is answered with status 429 and the fixed message (no body for a
  \<^verbatim>\<open>HEAD\<close> request) when it arrives in the window and 100 or more were counted (it
  is request 101 or later), and is admitted again when it arrives once the 15 minutes
  have passed. A request is admitted when the answer is the handler's, whose status is
  never 429. A request \<open>rq'\<close> that does not get as far as the limiter is answered
  204 (\<^verbatim>\<open>OPTIONS\<close>) or 500 (body rejected) whatever the count, and changes nothing.
\<close>

theorem rate_limit_window:
  assumes fresh: "\<not> live_window a t0 w"
    and first: "req_ip rq0 = a" "reaches_limiter rq0"
    and later: "\<forall>x \<in> set rest. counted a x \<longrightarrow> fst x < t0 + windowMs"
    and nxt: "req_ip rq = a" "reaches_limiter rq"
    and run: "serve j ((t0, e0, rq0) # rest) w = (rs, w')"
    and k: "k = 1 + length (filter (counted a) rest)"
  shows "status (hd rs) \<noteq> 429 \<and>
         (t < t0 + windowMs \<and> k < 100 \<longrightarrow>
            status (fst (app j e rq (w'\<lparr>clock := t\<rparr>))) \<noteq> 429) \<and>
         (t < t0 + windowMs \<and> 100 \<le> k \<longrightarrow>
            fst (app j e rq (w'\<lparr>clock := t\<rparr>)) =
              \<lparr>status = 429,
               body = (if req_method rq = HEAD then NoBody
                       else TextBody ''Too many requests from this IP, please try again later.'')\<rparr>) \<and>
         (t0 + 15 * 60 * 1000 \<le> t \<longrightarrow>
            status (fst (app j e rq (w'\<lparr>clock := t\<rparr>))) \<noteq> 429) \<and>
         (req_method rq' = OPTIONS \<longrightarrow>
            app j e rq' (w'\<lparr>clock := t\<rparr>) = (\<lparr>status = 204, body = NoBody\<rparr>, w'\<lparr>clock := t\<rparr>)) \<and>
         (req_method rq' \<noteq> OPTIONS \<and> req_body rq' = Unparseable \<longrightarrow>
            status (fst (app j e rq' (w'\<lparr>clock := t\<rparr>))) = 500 \<and>
            snd (app j e rq' (w'\<lparr>clock := t\<rparr>)) = w'\<lparr>clock := t\<rparr>)"
proof -
  let ?w1 = "snd (app j e0 rq0 (w\<lparr>clock := t0\<rparr>))"
  have nolive: "\<not> live_window a (clock (w\<lparr>clock := t0\<rparr>)) (w\<lparr>clock := t0\<rparr>)"
    using fresh by (simp add: live_window_def)
  note o = app_opens_window [OF first nolive, of j e0]
  have opened: "windows ?w1 a = Some (t0, 1)"
    using conjunct1 [OF o] by simp
  have w': "w' = snd (serve j rest ?w1)"
    and rs: "hd rs = fst (app j e0 rq0 (w\<lparr>clock := t0\<rparr>))"
    using run by (auto split: prod.splits)
  have win: "windows (w'\<lparr>clock := t\<rparr>) a = Some (t0, k)"
    using serve_windows [OF opened later, of j] w' k by simp
  have one: "status (hd rs) \<noteq> 429"
    using rs conjunct2 [OF o] by simp
  have two: "t < t0 + windowMs \<Longrightarrow> k < 100 \<Longrightarrow>
      status (fst (app j e rq (w'\<lparr>clock := t\<rparr>))) \<noteq> 429"
    using app_in_window [OF nxt win, of j e] by (simp add: max_requests_def)
  have three: "t < t0 + windowMs \<Longrightarrow> 100 \<le> k \<Longrightarrow>
      fst (app j e rq (w'\<lparr>clock := t\<rparr>)) = sent (req_method rq) too_many_requests"
    using app_in_window [OF nxt win, of j e] by (simp add: max_requests_def)
  have four: "t0 + windowMs \<le> t \<Longrightarrow> status (fst (app j e rq (w'\<lparr>clock := t\<rparr>))) \<noteq> 429"
    using app_after_window [OF nxt win, of j e] by simp
  have five: "req_method rq' = OPTIONS \<Longrightarrow>
      app j e rq' (w'\<lparr>clock := t\<rparr>) = (\<lparr>status = 204, body = NoBody\<rparr>, w'\<lparr>clock := t\<rparr>)"
    using app_before_limiter(1) [of rq' j e] by (simp add: preflight_def)
  have six: "req_method rq' \<noteq> OPTIONS \<Longrightarrow> req_body rq' = Unparseable \<Longrightarrow>
      status (fst (app j e rq' (w'\<lparr>clock := t\<rparr>))) = 500 \<and>
      snd (app j e rq' (w'\<lparr>clock := t\<rparr>)) = w'\<lparr>clock := t\<rparr>"
    using app_before_limiter(2) [of rq' j e]
    by (simp add: sent_status internal_error_def json_response_def)
  show ?thesis
    using one two three four five six
    by (simp add: windowMs_def too_many_requests_def limit_message_def sent_def)
qed

text \<open>One client sends 100 requests for the status snapshot within a second. Request
  101, one millisecond before the window ends, is rejected; the request at the end of
  the window is admitted; and so was request 2. A preflight and a POST with a broken
  body pass by the limiter while the count is 100.\<close>

theorem rate_limit_window_witness:
  "fst (app js0 all_up status_request
          ((snd (serve js0 hundred w0))\<lparr>clock := 1752052429999\<rparr>)) =
     \<lparr>status = 429, body = TextBody ''Too many requests from this IP, please try again later.''\<rparr> \<and>
   status (fst (app js0 all_up status_request
          ((snd (serve js0 hundred w0))\<lparr>clock := 1752052430000\<rparr>))) \<noteq> 429 \<and>
   status (fst (app js0 all_up status_request
          ((snd (serve js0 [(1752051530000, all_up, status_request)] w0))
             \<lparr>clock := 1752051531000\<rparr>))) \<noteq> 429 \<and>
   status (fst (app js0 all_up preflight_request
          ((snd (serve js0 hundred w0))\<lparr>clock := 1752052429999\<rparr>))) = 204 \<and>
   status (fst (app js0 all_up broken_post
          ((snd (serve js0 hundred w0))\<lparr>clock := 1752052429999\<rparr>))) = 500"
proof -
  let ?x = "(1752051531000::nat, all_up, status_request)"
  let ?one = "[(1752051530000::nat, all_up, status_request)]"
  have full: "hundred = (1752051530000, all_up, status_request) # replicate 99 ?x"
    by (simp add: hundred_def)
  have fresh: "\<not> live_window client 1752051530000 w0"
    by (simp add: live_window_def w0_def)
  have ip: "req_ip status_request = client" and reach: "reaches_limiter status_request"
    by (simp_all add: status_request_def reaches_limiter_def)
  have later: "\<forall>x \<in> set (replicate 99 ?x). counted client x \<longrightarrow> fst x < 1752051530000 + windowMs"
    by (simp add: windowMs_def)
  have none: "\<forall>x \<in> set []. counted client x \<longrightarrow> fst x < 1752051530000 + windowMs"
    by simp
  have k: "(100::nat) = 1 + length (filter (counted client) (replicate 99 ?x))"
    by (simp add: counted_def ip reach)
  have k1: "(1::nat) = 1 + length (filter (counted client) [])"
    by simp
  have run: "serve js0 ((1752051530000, all_up, status_request) # replicate 99 ?x) w0 =
      (fst (serve js0 hundred w0), snd (serve js0 hundred w0))"
    by (simp add: full)
  have run1: "serve js0 ?one w0 = (fst (serve js0 ?one w0), snd (serve js0 ?one w0))"
    by simp
  have opt: "req_method preflight_request = OPTIONS"
    and bad: "req_method broken_post \<noteq> OPTIONS" "req_body broken_post = Unparseable"
    by (simp_all add: preflight_request_def broken_post_def)
  have a: "fst (app js0 all_up status_request ((snd (serve js0 hundred w0))\<lparr>clock := 1752052429999\<rparr>)) =
      \<lparr>status = 429, body = TextBody ''Too many requests from this IP, please try again later.''\<rparr>"
    using rate_limit_window [OF fresh ip reach later ip reach run k, of 1752052429999 all_up]
    by (simp add: windowMs_def status_request_def)
  have b: "status (fst (app js0 all_up status_request
      ((snd (serve js0 hundred w0))\<lparr>clock := 1752052430000\<rparr>))) \<noteq> 429"
    using rate_limit_window [OF fresh ip reach later ip reach run k, of 1752052430000 all_up]
    by simp
  have c: "status (fst (app js0 all_up status_request
      ((snd (serve js0 ?one w0))\<lparr>clock := 1752051531000\<rparr>))) \<noteq> 429"
    using rate_limit_window [OF fresh ip reach none ip reach run1 k1, of 1752051531000 all_up]
    by (simp add: windowMs_def)
  have d: "status (fst (app js0 all_up preflight_request
      ((snd (serve js0 hundred w0))\<lparr>clock := 1752052429999\<rparr>))) = 204"
    using rate_limit_window [OF fresh ip reach later ip reach run k,
        of 1752052429999 all_up preflight_request] opt
    by simp
  have f: "status (fst (app js0 all_up broken_post
      ((snd (serve js0 hundred w0))\<lparr>clock := 1752052429999\<rparr>))) = 500"
    using rate_limit_window [OF fresh ip reach later ip reach run k,
        of 1752052429999 all_up broken_post] bad
    by simp
  show ?thesis
    using a b c d f by blast
qed

subsection \<open>C3: a failing probe inside the aggregation\<close>




subsection \<open>C4: a duplicate email\<close>

text \<open>
  A second user with the email of the row already in the table: no row is added, and
  the answer is 500, which is no client error.
\<close>

theorem duplicate_email_counterexample:
  "status (fst (create_user js0 all_up (Some ''Bob'') (Some ''alice.brown@example.com'') w0)) = 500 \<and>
   \<not> client_error (fst (create_user js0 all_up (Some ''Bob'') (Some ''alice.brown@example.com'') w0)) \<and>
   users (snd (create_user js0 all_up (Some ''Bob'') (Some ''alice.brown@example.com'') w0)) = [alice]"
  by (simp add: create_user_def falsy_def query_insert_user_def varchar255_def all_up_def
      w0_def alice_def record_call_def internal_error_def json_response_def client_error_def)

text \<open>
  C4, as the code has it. \<^verbatim>\<open>POST /api/users\<close> with a name and an email that are both
  present and not empty, the email being, in the 255 characters that its column
  stores, that of a row of the table, adds no row (the store rejects the insert, or
  cannot be reached), leaves the cache as it is, and answers 500 with the generic body:
  the violation of uniqueness is not told apart from any other store error.
\<close>

theorem duplicate_email_rejected:
  assumes "n \<noteq> []" and "m \<noteq> []" and "take 255 m \<in> set (map row_email (users w))"
  shows "fst (create_user j e (Some n) (Some m) w) = internal_error \<and>
         users (snd (create_user j e (Some n) (Some m) w)) = users w \<and>
         cache (snd (create_user j e (Some n) (Some m) w)) = cache w"
  using assms
  by (simp add: create_user_def falsy_def query_insert_user_def varchar255_def record_call_def
      split: option.splits)

theorem duplicate_email_rejected_witness:
  "''Bob'' \<noteq> [] \<and> ''alice.brown@example.com'' \<noteq> [] \<and>
   take 255 ''alice.brown@example.com'' \<in> set (map row_email (users w0)) \<and>
   fst (create_user js0 all_up (Some ''Bob'') (Some ''alice.brown@example.com'') w0) = internal_error \<and>
   users (snd (create_user js0 all_up (Some ''Bob'') (Some ''alice.brown@example.com'') w0)) = users w0"
  using duplicate_email_rejected [of "''Bob''" "''alice.brown@example.com''" w0 js0 all_up]
  by (simp add: w0_def alice_def)

subsection \<open>C5: creating a user invalidates the cached metrics\<close>

text \<open>
  C5. When \<^verbatim>\<open>POST /api/users\<close> has answered 201, the key \<^verbatim>\<open>system:metrics\<close> is gone
  from the cache. As long as nothing has written the key since (the state \<open>w2\<close> of the
  next call holds for it what the state \<open>w1\<close> after the creation holds),
  \<^verbatim>\<open>GET /api/metrics\<close> takes the path of a cache miss whenever its read reaches the
  cache, and its answer is either the generic 500 or the snapshot computed at the
  instant of that call, never a document from the cache.
\<close>

theorem create_user_invalidates_metrics:
  assumes "create_user j e name email w = (r, w1)" and "status r = 201"
    and "cache w2 ''system:metrics'' = cache w1 ''system:metrics''"
  shows "cache w1 ''system:metrics'' = None \<and>
         (get_err e2 = None \<longrightarrow>
            get_metrics j e2 w2 = metrics_miss j e2 (record_call (Get ''system:metrics'') w2)) \<and>
         (fst (get_metrics j e2 w2) = internal_error \<or>
          fst (get_metrics j e2 w2) = json_response 200 (metrics j e2 (clock w2)))"
proof -
  have gone: "cache w1 ''system:metrics'' = None"
    using assms(1,2)
    by (auto simp add: create_user_def bad_request_def internal_error_def json_response_def
        query_insert_user_def redis_del_def record_call_def Let_def
        split: if_splits option.splits prod.splits sum.splits)
  then have miss: "cache w2 ''system:metrics'' = None"
    using assms(3) by simp
  show ?thesis
    using gone miss
    by (simp add: get_metrics_def metrics_miss_def redis_get_def redis_setEx_def record_call_def
        split: option.splits)
qed

text \<open>Bob is created while a metrics document sits in the cache; one second later the
  metrics are computed anew.\<close>

theorem create_user_invalidates_metrics_witness:
  "cache w_cached ''system:metrics'' \<noteq> None \<and>
   status (fst (create_user js0 all_up (Some ''Bob'') (Some ''bob@example.com'') w_cached)) = 201 \<and>
   cache (snd (create_user js0 all_up (Some ''Bob'') (Some ''bob@example.com'') w_cached))
     ''system:metrics'' = None \<and>
   fst (get_metrics js0 all_up
         ((snd (create_user js0 all_up (Some ''Bob'') (Some ''bob@example.com'') w_cached))
            \<lparr>clock := 1752051531000\<rparr>)) =
     json_response 200 (metrics js0 all_up 1752051531000)"
proof -
  let ?c = "create_user js0 all_up (Some ''Bob'') (Some ''bob@example.com'') w_cached"
  have before: "cache w_cached ''system:metrics'' \<noteq> None"
    by (simp add: w_cached_def)
  have run: "?c = (fst ?c, snd ?c)"
    by simp
  have created: "status (fst ?c) = 201"
    by (simp add: create_user_def falsy_def query_insert_user_def varchar255_def redis_del_def
        all_up_def w_cached_def w0_def alice_def record_call_def json_response_def Let_def)
  have same: "cache ((snd ?c)\<lparr>clock := 1752051531000\<rparr>) ''system:metrics'' =
      cache (snd ?c) ''system:metrics''"
    by simp
  have up: "get_err all_up = None" "setEx_err all_up = None"
    by (simp_all add: all_up_def)
  note t = create_user_invalidates_metrics [OF run created same, of all_up]
  have "fst (get_metrics js0 all_up ((snd ?c)\<lparr>clock := 1752051531000\<rparr>)) =
      json_response 200 (metrics js0 all_up 1752051531000)"
    using t up by (simp add: metrics_miss_def redis_setEx_def record_call_def)
  then show ?thesis
    using before created t by blast
qed

subsection \<open>C6: the health check\<close>

text \<open>
  With the relational store out of reach, the body of the 503 has no \<^verbatim>\<open>services\<close>,
  the cache store has not been probed, and the answer is the same whether the cache
  store is in order or out of reach as well: the body holds no detail per dependency.
\<close>

theorem health_detail_counterexample:
  "json_field ''services'' (body (fst (get_health js0 db_down w0))) = None \<and>
   Ping \<notin> set (calls (snd (get_health js0 db_down w0))) \<and>
   fst (get_health js0 (db_down\<lparr>ping_err := Some ''ECONNREFUSED 6379''\<rparr>) w0) =
     fst (get_health js0 db_down w0)"
  by (simp add: get_health_def query_probe_def db_down_def all_up_def w0_def record_call_def
      unhealthy_body_def json_response_def)

text \<open>
  C6, as the code has it. \<^verbatim>\<open>GET /health\<close> is never cached: it leaves the cache as it
  is and its answer does not depend on what the cache holds. When both probes succeed it
  has probed the relational store and then the cache store, and answers 200 with status
  \<^verbatim>\<open>healthy\<close> and the three services. When either probe fails it answers 503 with
  status \<^verbatim>\<open>unhealthy\<close>; it has probed the relational store, and the cache store
  only if the relational probe succeeded.
\<close>

theorem health_uncached_two_outcomes:
  "cache (snd (get_health j e w)) = cache w \<and>
   fst (get_health j e (w\<lparr>cache := c\<rparr>)) = fst (get_health j e w) \<and>
   (query_err e = None \<and> ping_err e = None \<longrightarrow>
      fst (get_health j e w) =
        json_response 200 (JObj [(''status'', JStr ''healthy''),
                                 (''timestamp'', JStr (toISOString j (clock w))),
                                 (''services'', JObj [(''database'', JStr ''connected''),
                                                      (''redis'', JStr ''connected''),
                                                      (''api'', JStr ''running'')])]) \<and>
      calls (snd (get_health j e w)) = calls w @ [Query Select_1, Ping]) \<and>
   (query_err e \<noteq> None \<or> ping_err e \<noteq> None \<longrightarrow>
      status (fst (get_health j e w)) = 503 \<and>
      json_field ''status'' (body (fst (get_health j e w))) = Some (JStr ''unhealthy'') \<and>
      calls (snd (get_health j e w)) =
        calls w @ (if query_err e = None then [Query Select_1, Ping] else [Query Select_1]))"
  by (auto simp add: get_health_def query_probe_def redis_ping_def record_call_def
      unhealthy_body_def healthy_body_def json_response_def split: option.splits)

theorem health_uncached_two_outcomes_witness:
  "status (fst (get_health js0 all_up w0)) = 200 \<and>
   calls (snd (get_health js0 all_up w0)) = [Query Select_1, Ping] \<and>
   status (fst (get_health js0 cache_down w0)) = 503 \<and>
   json_field ''status'' (body (fst (get_health js0 cache_down w0))) = Some (JStr ''unhealthy'') \<and>
   calls (snd (get_health js0 cache_down w0)) = [Query Select_1, Ping]"
  using health_uncached_two_outcomes [of js0 all_up w0]
    health_uncached_two_outcomes [of js0 cache_down w0]
  by (simp add: all_up_def cache_down_def w0_def json_response_def)

subsection \<open>C7: two answers from one cached snapshot\<close>

text \<open>
  C7. Let a first \<^verbatim>\<open>GET /api/status\<close> answer 200 and leave the cache with the entry
  \<open>(s, expiry)\<close> under \<^verbatim>\<open>system:status\<close>. Let a second call find that entry
  untouched, arrive before it expires, and have its read reach the cache. Then the
  second answer is the first one, status and document, hence the same bytes, and the
  second call has done nothing but read the cache. When the first call found no entry,
  the one it wrote expires 60 seconds after that call. The runtime is assumed to parse
  the text it writes for the snapshot back to the snapshot, and to write a text that is
  not empty.
\<close>

theorem status_cache_hit_deterministic:
  assumes first: "get_status j e1 w = (r1, w1)" and ok: "status r1 = 200"
    and rt: "JSON_parse j (JSON_stringify j (statusData j (clock w))) = Inr (statusData j (clock w))"
    and ne: "JSON_stringify j (statusData j (clock w)) \<noteq> []"
    and entry: "cache w1 ''system:status'' = Some (s, expiry)"
    and same: "cache w2 ''system:status'' = cache w1 ''system:status''"
    and ttl: "clock w2 < expiry"
    and reach: "get_err e2 = None"
  shows "fst (get_status j e2 w2) = r1 \<and>
         calls (snd (get_status j e2 w2)) = calls w2 @ [Get ''system:status''] \<and>
         (cache w ''system:status'' = None \<longrightarrow> expiry = clock w + 60 * 1000)"
proof -
  have found: "cache w2 ''system:status'' = Some (s, expiry)"
    using same entry by simp
  from first_status_200 [OF first ok] show ?thesis
  proof
    assume fresh: "r1 = json_response 200 (statusData j (clock w)) \<and>
      cache w1 ''system:status'' =
        Some (JSON_stringify j (statusData j (clock w)), clock w + 60 * 1000)"
    with entry have s: "s = JSON_stringify j (statusData j (clock w))"
      and x: "expiry = clock w + 60 * 1000"
      by simp_all
    from second_status_hit [OF found ttl _ _ reach, of j "statusData j (clock w)"] s rt ne fresh x
    show ?thesis by (simp add: record_call_def)
  next
    assume "\<exists>s expiry v. cache w ''system:status'' = Some (s, expiry) \<and> clock w < expiry \<and>
            s \<noteq> [] \<and> JSON_parse j s = Inr v \<and> r1 = json_response 200 v \<and>
            cache w1 ''system:status'' = cache w ''system:status''"
    then obtain s' x' v where old: "cache w ''system:status'' = Some (s', x')" "s' \<noteq> []"
      "JSON_parse j s' = Inr v" "r1 = json_response 200 v"
      "cache w1 ''system:status'' = cache w ''system:status''"
      by blast
    with entry have eq: "s' = s" "x' = expiry" by simp_all
    from second_status_hit [OF found ttl _ _ reach, of j v] old eq
    show ?thesis by (simp add: record_call_def)
  qed
qed

text \<open>The snapshot is computed at \<open>w0\<close> and asked for again one millisecond before the
  60 seconds are over.\<close>

theorem status_cache_hit_deterministic_witness:
  "get_status js1 all_up w0 =
     (json_response 200 (statusData js1 1752051530000), snd (get_status js1 all_up w0)) \<and>
   cache (snd (get_status js1 all_up w0)) ''system:status'' =
     Some (render (statusData js1 1752051530000), 1752051590000) \<and>
   fst (get_status js1 all_up ((snd (get_status js1 all_up w0))\<lparr>clock := 1752051589999\<rparr>)) =
     json_response 200 (statusData js1 1752051530000)"
proof -
  let ?w1 = "snd (get_status js1 all_up w0)"
  let ?w2 = "?w1\<lparr>clock := 1752051589999\<rparr>"
  have clk: "clock w0 = 1752051530000"
    by (simp add: w0_def)
  have str: "JSON_stringify js1 = render" and prs: "JSON_parse js1 (render (statusData js1 1752051530000)) =
      Inr (statusData js1 1752051530000)"
    by (simp_all add: statusData_js1) (simp_all add: js1_def js_knowing_def)
  have first: "get_status js1 all_up w0 = (json_response 200 (statusData js1 1752051530000), ?w1)"
    by (rule prod_eqI)
       (simp_all add: get_status_def status_miss_def redis_get_def redis_setEx_def
          query_probe_def record_call_def all_up_def w0_def)
  have ok: "status (json_response 200 (statusData js1 1752051530000)) = 200"
    by (simp add: json_response_def)
  have rt: "JSON_parse js1 (JSON_stringify js1 (statusData js1 (clock w0))) =
      Inr (statusData js1 (clock w0))"
    using prs by (simp add: clk str)
  have ne: "JSON_stringify js1 (statusData js1 (clock w0)) \<noteq> []"
    by (simp add: str statusData_def)
  have entry: "cache ?w1 ''system:status'' =
      Some (render (statusData js1 1752051530000), 1752051590000)"
    by (simp add: get_status_def status_miss_def redis_get_def redis_setEx_def
        query_probe_def record_call_def all_up_def w0_def str)
  have same: "cache ?w2 ''system:status'' = cache ?w1 ''system:status''"
    by simp
  have ttl: "clock ?w2 < 1752051590000"
    by simp
  have reach: "get_err all_up = None"
    by (simp add: all_up_def)
  from status_cache_hit_deterministic [OF first ok rt ne entry same ttl reach]
  have "fst (get_status js1 all_up ?w2) = json_response 200 (statusData js1 1752051530000)"
    by blast
  then show ?thesis
    using first entry by blast
qed

subsection \<open>C8: the freshly computed status snapshot\<close>

text \<open>
  C8. When the cache read of \<^verbatim>\<open>GET /api/status\<close> finds nothing it can use
  (\<^verbatim>\<open>null\<close> or the empty string) and the handler answers 200, the body is the literal
  snapshot: the three services \<^verbatim>\<open>Backend API\<close>, \<^verbatim>\<open>Database\<close> and
  \<^verbatim>\<open>Redis Cache\<close>, in this order, each \<^verbatim>\<open>healthy\<close> with uptime \<^verbatim>\<open>2h 34m\<close>, and the
  timestamp of the call. The rows of the probe query take no part in it, and no entry
  is ever \<^verbatim>\<open>error\<close> or \<^verbatim>\<open>warning\<close>.
\<close>

theorem fresh_status_snapshot_is_constant:
  assumes "redis_get e ''system:status'' w = (Inr c, w1)" and "falsy c"
    and "status (fst (get_status j e w)) = 200"
  shows "body (fst (get_status j e w)) =
           JsonBody (JObj [(''services'',
              JArr [JObj [(''name'', JStr ''Backend API''), (''status'', JStr ''healthy''),
                          (''uptime'', JStr ''2h 34m'')],
                    JObj [(''name'', JStr ''Database''), (''status'', JStr ''healthy''),
                          (''uptime'', JStr ''2h 34m'')],
                    JObj [(''name'', JStr ''Redis Cache''), (''status'', JStr ''healthy''),
                          (''uptime'', JStr ''2h 34m'')]]),
             (''timestamp'', JStr (toISOString j (clock w)))])"
  using assms
  by (auto simp add: get_status_def status_miss_def falsy_def statusData_def service_entry_def
      redis_get_def redis_setEx_def query_probe_def record_call_def internal_error_def
      json_response_def split: option.splits if_splits)

theorem fresh_status_snapshot_is_constant_witness:
  "redis_get all_up ''system:status'' w0 = (Inr None, record_call (Get ''system:status'') w0) \<and>
   falsy None \<and>
   status (fst (get_status js0 all_up w0)) = 200 \<and>
   body (fst (get_status js0 all_up w0)) =
     JsonBody (JObj [(''services'',
        JArr [JObj [(''name'', JStr ''Backend API''), (''status'', JStr ''healthy''),
                    (''uptime'', JStr ''2h 34m'')],
              JObj [(''name'', JStr ''Database''), (''status'', JStr ''healthy''),
                    (''uptime'', JStr ''2h 34m'')],
              JObj [(''name'', JStr ''Redis Cache''), (''status'', JStr ''healthy''),
                    (''uptime'', JStr ''2h 34m'')]]),
       (''timestamp'', JStr ''2025-07-09T08:58:50.000Z'')])"
proof -
  have miss: "redis_get all_up ''system:status'' w0 =
      (Inr None, record_call (Get ''system:status'') w0)"
    by (simp add: redis_get_def all_up_def w0_def)
  have f: "falsy None"
    by (simp add: falsy_def)
  have ok: "status (fst (get_status js0 all_up w0)) = 200"
    by (simp add: get_status_def status_miss_def redis_get_def redis_setEx_def
        query_probe_def record_call_def all_up_def w0_def json_response_def)
  have stamp: "toISOString js0 (clock w0) = ''2025-07-09T08:58:50.000Z''"
    using iso_example by (simp add: js0_def js_knowing_def w0_def)
  from fresh_status_snapshot_is_constant [OF miss f ok] stamp miss f ok
  show ?thesis by simp
qed

subsection \<open>C9: the insert and the invalidation are not one step\<close>

text \<open>
  C9. \<^verbatim>\<open>POST /api/users\<close> with a name and an email that are present and not empty:
  whenever the insert succeeds and the delete on the cache store is then rejected, the
  client receives the generic 500, and the table holds the new row all the same: the
  row that the insert returned, with the next id of the sequence, the name and the
  email as their columns store them, and the instant of the call.
\<close>

theorem create_user_not_atomic:
  assumes "n \<noteq> []" and "m \<noteq> []"
    and "query_insert_user e n m w = (Inr r, w1)"
    and "del_err e = Some msg"
  shows "fst (create_user j e (Some n) (Some m) w) = internal_error \<and>
         users (snd (create_user j e (Some n) (Some m) w)) = users w @ [r] \<and>
         r = \<lparr>row_id = users_id_seq w, row_name = take 255 n, row_email = take 255 m,
              created_at = clock w, updated_at = clock w\<rparr>"
proof -
  have row: "r = \<lparr>row_id = users_id_seq w, row_name = take 255 n, row_email = take 255 m,
      created_at = clock w, updated_at = clock w\<rparr>"
    and stored: "users w1 = users w @ [r]"
    using assms(3)
    by (auto simp add: query_insert_user_def varchar255_def record_call_def Let_def
        split: option.splits if_splits)
  have "create_user j e (Some n) (Some m) w = (internal_error, record_call (Del ''system:metrics'') w1)"
    using assms by (simp add: create_user_def falsy_def redis_del_def)
  then show ?thesis
    using row stored by (simp add: record_call_def)
qed

text \<open>Bob is inserted while the relational store answers and the delete on the cache
  store is rejected.\<close>

theorem create_user_not_atomic_witness:
  "''Bob'' \<noteq> [] \<and> ''bob@example.com'' \<noteq> [] \<and>
   fst (query_insert_user del_down ''Bob'' ''bob@example.com'' w0) =
     Inr \<lparr>row_id = 2, row_name = ''Bob'', row_email = ''bob@example.com'',
          created_at = 1752051530000, updated_at = 1752051530000\<rparr> \<and>
   del_err del_down = Some ''ECONNREFUSED 6379'' \<and>
   status (fst (create_user js0 del_down (Some ''Bob'') (Some ''bob@example.com'') w0)) = 500 \<and>
   users (snd (create_user js0 del_down (Some ''Bob'') (Some ''bob@example.com'') w0)) =
     [alice, \<lparr>row_id = 2, row_name = ''Bob'', row_email = ''bob@example.com'',
              created_at = 1752051530000, updated_at = 1752051530000\<rparr>]"
proof -
  let ?bob = "\<lparr>row_id = 2, row_name = ''Bob'', row_email = ''bob@example.com'',
      created_at = 1752051530000, updated_at = 1752051530000\<rparr>"
  let ?q = "query_insert_user del_down ''Bob'' ''bob@example.com'' w0"
  have inserted: "fst ?q = Inr ?bob"
    by (simp add: query_insert_user_def varchar255_def del_down_def all_up_def w0_def alice_def
        Let_def)
  then have run: "?q = (Inr ?bob, snd ?q)"
    by (simp add: prod_eq_iff)
  have down: "del_err del_down = Some ''ECONNREFUSED 6379''"
    by (simp add: del_down_def all_up_def)
  have name: "''Bob'' \<noteq> []" and email: "''bob@example.com'' \<noteq> []"
    by simp_all
  from create_user_not_atomic [OF name email run down, of js0] inserted down
  show ?thesis
    by (simp add: w0_def internal_error_def json_response_def)
qed

subsection \<open>C10: the body of a failed health check\<close>

text \<open>
  C10. When \<^verbatim>\<open>GET /health\<close> does not answer 200, a probe has failed, and the answer is
  503 with exactly the status \<^verbatim>\<open>unhealthy\<close>, the timestamp and, under \<^verbatim>\<open>error\<close>, the
  message of the first probe that failed; the body has no \<^verbatim>\<open>services\<close>. When it is
  the relational probe that failed, the only store call made is that query: the cache
  store has not been probed, and the answer is the same whatever the cache probe would
  have done.
\<close>

theorem health_failure_body:
  assumes "status (fst (get_health j e w)) \<noteq> 200"
  shows "\<exists>m. (query_err e = Some m \<or> (query_err e = None \<and> ping_err e = Some m)) \<and>
           fst (get_health j e w) =
             json_response 503 (JObj [(''status'', JStr ''unhealthy''),
                                      (''timestamp'', JStr (toISOString j (clock w))),
                                      (''error'', JStr m)]) \<and>
           json_field ''services'' (body (fst (get_health j e w))) = None \<and>
           (query_err e = Some m \<longrightarrow>
              calls (snd (get_health j e w)) = calls w @ [Query Select_1] \<and>
              get_health j (e\<lparr>ping_err := p\<rparr>) w = get_health j e w)"
  using assms
  by (auto simp add: get_health_def query_probe_def redis_ping_def record_call_def
      unhealthy_body_def healthy_body_def json_response_def split: option.splits)

theorem health_failure_body_witness:
  "status (fst (get_health js0 db_down w0)) \<noteq> 200 \<and>
   fst (get_health js0 db_down w0) =
     json_response 503 (JObj [(''status'', JStr ''unhealthy''),
                              (''timestamp'', JStr ''2025-07-09T08:58:50.000Z''),
                              (''error'', JStr ''ECONNREFUSED 5432'')]) \<and>
   calls (snd (get_health js0 db_down w0)) = [Query Select_1]"
proof -
  have bad: "status (fst (get_health js0 db_down w0)) \<noteq> 200"
    by (simp add: get_health_def query_probe_def db_down_def all_up_def json_response_def)
  have down: "query_err db_down = Some ''ECONNREFUSED 5432''"
    by (simp add: db_down_def all_up_def)
  have stamp: "toISOString js0 (clock w0) = ''2025-07-09T08:58:50.000Z''"
    using iso_example by (simp add: js0_def js_knowing_def w0_def)
  have empty: "calls w0 = []"
    by (simp add: w0_def)
  from health_failure_body [OF bad] down stamp empty bad
  show ?thesis by auto
qed

end
